theory Spec2Isabelle
  imports Complex_Main
begin

section \<open>Data model\<close>

text \<open>
  The prediction engine of PREDIX AI (\<^verbatim>\<open>src/prediction_engine.py\<close>) and the
  configuration it reads (\<^verbatim>\<open>src/config.py\<close>), as HOL functions.

  Conventions of the embedding:
  \<^item> Python \<^verbatim>\<open>int\<close> is \<open>int\<close>. A confidence and an accuracy are \<open>real\<close> (the
    division of \<^verbatim>\<open>_calculate_accuracy\<close> is exact, rounding is not modelled). The two
    thresholds of the configuration come from \<^verbatim>\<open>float(os.getenv(...))\<close>, which also accepts
    the text \<^verbatim>\<open>nan\<close>: they are of type \<open>pyfloat\<close>, a number or NaN.
  \<^item> A \<^verbatim>\<open>datetime\<close> is represented by its \<^verbatim>\<open>isoformat()\<close> string, a byte string by
    a \<open>string\<close>, so \<^verbatim>\<open>.isoformat()\<close> and \<^verbatim>\<open>.encode()\<close> are identities.
  \<^item> An exception is a value: a call that may raise returns \<open>exn + 'a\<close>.
  \<^item> \<^verbatim>\<open>self\<close> is a record passed in and returned; the collaborators
    (\<^verbatim>\<open>data_collector\<close>, \<^verbatim>\<open>model_trainer\<close>, \<^verbatim>\<open>blockchain_interface\<close>), the clock,
    the random generator and the library functions \<^verbatim>\<open>hashlib.sha256\<close> and \<^verbatim>\<open>repr\<close>
    are the fields of an environment record, and every function that calls a
    collaborator also returns the list of calls it made, in order.
  \<^item> A leading underscore of a Python name is dropped.
\<close>

datatype exn = ValueError string | TypeError string | Raised string

text \<open>
  A Python float that may be NaN. Every comparison with NaN is false. An infinity
  compares like a number beyond every other, so it needs no constructor of its own.
\<close>

datatype pyfloat = Num real | NaN

fun float_lt :: "pyfloat \<Rightarrow> pyfloat \<Rightarrow> bool" where
  "float_lt (Num a) (Num b) = (a < b)"
| "float_lt _ _ = False"

fun float_gt :: "pyfloat \<Rightarrow> pyfloat \<Rightarrow> bool" where
  "float_gt (Num a) (Num b) = (a > b)"
| "float_gt _ _ = False"

fun float_ge :: "pyfloat \<Rightarrow> pyfloat \<Rightarrow> bool" where
  "float_ge (Num a) (Num b) = (a \<ge> b)"
| "float_ge _ _ = False"

type_synonym datetime = string

text \<open>A numpy array: its shape and its raw buffer (what \<^verbatim>\<open>tobytes()\<close> returns).\<close>

record ndarray =
  shape :: "nat list"
  tobytes :: string

datatype pyval = PyInt int | PyFloat real | PyBool bool

text \<open>
  \<^verbatim>\<open>PredictionResult\<close> is a plain dataclass: it declares no \<^verbatim>\<open>round_id\<close>, but
  \<^verbatim>\<open>update_prediction_result\<close> asks \<^verbatim>\<open>hasattr(pred, 'round_id')\<close>, so the attribute is
  a field that may be absent (\<open>None\<close>).
\<close>

record PredictionResult =
  direction :: int
  confidence :: real
  timestamp :: datetime
  features_hash :: string
  signature_hash :: string
  model_version :: string
  metadata :: "(string \<times> pyval) list"
  round_id :: "int option"

record Config =
  PRIVATE_KEY :: string
  WEB3_PROVIDER_URL :: string
  SEQUENCE_LENGTH :: int
  FEATURE_COUNT :: int
  BATCH_SIZE :: int
  CONFIDENCE_THRESHOLD :: pyfloat
  MAX_CONSECUTIVE_LOSSES :: int
  EMERGENCY_STOP_THRESHOLD :: pyfloat

record PredictionEngine =
  config :: Config
  consecutive_losses :: int
  total_predictions :: int
  correct_predictions :: int
  prediction_history :: "PredictionResult list"
  emergency_stop :: bool
  last_prediction_time :: "datetime option"

text \<open>
  What one operation of the engine sees of the outside world.
  \<open>get_model_info\<close> is the \<^verbatim>\<open>'parameters'\<close> entry of the dict that
  \<^verbatim>\<open>ModelTrainer.get_model_info\<close> returns (\<open>None\<close> when the key is absent);
  \<open>clock k\<close> is the value of the \<open>k\<close>-th \<^verbatim>\<open>datetime.now()\<close> of the operation;
  \<open>random_random\<close> is \<^verbatim>\<open>np.random.random\<close> asked for an array of the given dimensions:
  the buffer it filled, or the exception it raised (dimensions beyond what numpy
  allows, or memory that cannot be had).
\<close>

record env =
  get_latest_features :: "exn + ndarray option"
  predict :: "ndarray \<Rightarrow> exn + (int \<times> real)"
  sign_message :: "string \<Rightarrow> exn + string"
  get_model_info :: "exn + int option"
  load_model :: "exn + bool"
  clock :: "nat \<Rightarrow> datetime"
  random_random :: "nat list \<Rightarrow> exn + string"
  sha256_hexdigest :: "string \<Rightarrow> string"
  float_repr :: "real \<Rightarrow> string"
  str_repr :: "string \<Rightarrow> string"

datatype call =
    Call_get_latest_features
  | Call_predict ndarray
  | Call_sign_message string
  | Call_get_model_info
  | Call_load_model

text \<open>A text between single quotes.\<close>

definition quote :: "string \<Rightarrow> string" where
  "quote k = [CHR 0x27] @ k @ [CHR 0x27]"

section \<open>Configuration (config.py)\<close>

text \<open>
  The fields of the class \<^verbatim>\<open>Config\<close> in the order of the class body, each with the kind
  of its default value. Four of the defaults are list displays.
\<close>

datatype default_value = Str_default | Int_default | Float_default | Bool_default | List_default

definition Config_fields :: "(string \<times> default_value) list" where
  "Config_fields =
    [(''WEB3_PROVIDER_URL'', Str_default), (''CHAIN_ID'', Int_default),
     (''PRIVATE_KEY'', Str_default), (''ROUND_MANAGER_ADDRESS'', Str_default),
     (''PREDICTION_POOL_ADDRESS'', Str_default), (''ORACLE_HANDLER_ADDRESS'', Str_default),
     (''AI_ORACLE_ADAPTER_ADDRESS'', Str_default), (''COINGECKO_API_KEY'', Str_default),
     (''COINMARKETCAP_API_KEY'', Str_default), (''TWITTER_API_KEY'', Str_default),
     (''TWITTER_API_SECRET'', Str_default), (''TWITTER_ACCESS_TOKEN'', Str_default),
     (''TWITTER_ACCESS_TOKEN_SECRET'', Str_default), (''DATABASE_URL'', Str_default),
     (''REDIS_URL'', Str_default), (''MODEL_PATH'', Str_default),
     (''SEQUENCE_LENGTH'', Int_default), (''PREDICTION_HORIZON'', Int_default),
     (''FEATURE_COUNT'', Int_default), (''BATCH_SIZE'', Int_default), (''EPOCHS'', Int_default),
     (''LEARNING_RATE'', Float_default), (''VALIDATION_SPLIT'', Float_default),
     (''DATA_COLLECTION_INTERVAL'', Int_default), (''PRICE_DATA_SOURCES'', List_default),
     (''SENTIMENT_SOURCES'', List_default), (''ENABLE_API_SERVER'', Bool_default),
     (''API_HOST'', Str_default), (''API_PORT'', Int_default), (''API_SECRET_KEY'', Str_default),
     (''LOG_LEVEL'', Str_default), (''LOG_FILE'', Str_default),
     (''CONFIDENCE_THRESHOLD'', Float_default), (''MIN_PRICE_CHANGE_THRESHOLD'', Float_default),
     (''MAX_CONSECUTIVE_LOSSES'', Int_default), (''EMERGENCY_STOP_THRESHOLD'', Float_default),
     (''TECHNICAL_INDICATORS'', List_default), (''SENTIMENT_FEATURES'', List_default),
     (''POL_CONTRACT_ADDRESS'', Str_default), (''POL_DECIMALS'', Int_default)]"

text \<open>
  The decorator \<^verbatim>\<open>@dataclass\<close> of the standard library goes through the fields in order
  and raises at the first whose default is a list: the class statement then fails, when
  the module is imported.
\<close>

definition dataclass :: "(string \<times> default_value) list \<Rightarrow> exn + unit" where
  "dataclass fs =
     (case find (\<lambda>f. snd f = List_default) fs of
        None \<Rightarrow> Inr ()
      | Some f \<Rightarrow>
          Inl (ValueError (''mutable default <class '' @ quote ''list'' @ ''> for field ''
                 @ fst f @ '' is not allowed: use default_factory'')))"

text \<open>
  The method \<^verbatim>\<open>validate_config\<close>, on an object that has the attributes. A NaN threshold
  makes both comparisons false.
\<close>

definition validate_config :: "Config \<Rightarrow> exn + unit" where
  "validate_config c =
     (if PRIVATE_KEY c = [] then Inl (ValueError ''PRIVATE_KEY is required'')
      else if WEB3_PROVIDER_URL c = [] then Inl (ValueError ''WEB3_PROVIDER_URL is required'')
      else if float_lt (CONFIDENCE_THRESHOLD c) (Num (1 / 2))
              \<or> float_gt (CONFIDENCE_THRESHOLD c) (Num 1)
        then Inl (ValueError ''CONFIDENCE_THRESHOLD must be between 0.5 and 1.0'')
      else if SEQUENCE_LENGTH c < 10 then Inl (ValueError ''SEQUENCE_LENGTH must be at least 10'')
      else if BATCH_SIZE c < 1 then Inl (ValueError ''BATCH_SIZE must be positive'')
      else Inr ())"

text \<open>The method \<^verbatim>\<open>__post_init__\<close> only calls \<^verbatim>\<open>validate_config\<close>.\<close>

definition post_init :: "Config \<Rightarrow> exn + unit" where
  "post_init c = validate_config c"

text \<open>
  Construction of a \<^verbatim>\<open>Config\<close> with the given field values: the class statement comes
  first, and only a class that exists can store the fields and run \<^verbatim>\<open>__post_init__\<close>.
\<close>

definition Config_new :: "Config \<Rightarrow> exn + Config" where
  "Config_new c =
     (case dataclass Config_fields of
        Inl x \<Rightarrow> Inl x
      | Inr _ \<Rightarrow> (case post_init c of Inl x \<Rightarrow> Inl x | Inr _ \<Rightarrow> Inr c))"

section \<open>Rendering of values\<close>

text \<open>\<^verbatim>\<open>str\<close> of a Python integer: its decimal digits, with a minus sign when negative.\<close>

definition digit_char :: "nat \<Rightarrow> char" where
  "digit_char d = ''0123456789'' ! d"

function str_nat :: "nat \<Rightarrow> string" where
  "str_nat n = (if n < 10 then [digit_char n] else str_nat (n div 10) @ [digit_char (n mod 10)])"
  by pat_completeness auto
termination
  by (relation "measure (\<lambda>n. n)") auto

declare str_nat.simps [simp del]

definition str_int :: "int \<Rightarrow> string" where
  "str_int i = (if i < 0 then CHR ''-'' # str_nat (nat (- i)) else str_nat (nat i))"

text \<open>
  The dict \<^verbatim>\<open>prediction_data\<close> of \<^verbatim>\<open>_create_prediction_result\<close>, with its five keys in
  insertion order.
\<close>

record prediction_data =
  pd_direction :: int
  pd_confidence :: real
  pd_timestamp :: string
  pd_features_hash :: string
  pd_model_version :: string

text \<open>
  \<^verbatim>\<open>str(prediction_data)\<close>: braces, the items joined by a comma and a space, each
  key and value through \<^verbatim>\<open>repr\<close>.
\<close>

definition str_prediction_data :: "env \<Rightarrow> prediction_data \<Rightarrow> string" where
  "str_prediction_data e pd =
     ''{'' @ quote ''direction'' @ '': '' @ str_int (pd_direction pd) @ '', ''
     @ quote ''confidence'' @ '': '' @ float_repr e (pd_confidence pd) @ '', ''
     @ quote ''timestamp'' @ '': '' @ str_repr e (pd_timestamp pd) @ '', ''
     @ quote ''features_hash'' @ '': '' @ str_repr e (pd_features_hash pd) @ '', ''
     @ quote ''model_version'' @ '': '' @ str_repr e (pd_model_version pd) @ ''}''"

text \<open>The message that is sent for signing, the f-string of \<^verbatim>\<open>_create_signature_hash\<close>.\<close>

definition sign_payload :: "prediction_data \<Rightarrow> string" where
  "sign_payload pd = str_int (pd_direction pd) @ pd_timestamp pd @ pd_features_hash pd"

section \<open>The engine (prediction_engine.py)\<close>

definition init :: "Config \<Rightarrow> PredictionEngine" where
  "init c = \<lparr>config = c, consecutive_losses = 0, total_predictions = 0,
     correct_predictions = 0, prediction_history = [], emergency_stop = False,
     last_prediction_time = None\<rparr>"

definition calculate_accuracy :: "PredictionEngine \<Rightarrow> real" where
  "calculate_accuracy s =
     (if total_predictions s = 0 then 0
      else real_of_int (correct_predictions s) / real_of_int (total_predictions s))"

text \<open>The bare \<^verbatim>\<open>except:\<close> turns any failure of \<^verbatim>\<open>get_model_info\<close> into a fixed tag.\<close>

definition get_model_version :: "env \<Rightarrow> string \<times> call list" where
  "get_model_version e =
     (case get_model_info e of
        Inl _ \<Rightarrow> (''v1.0_unknown'', [Call_get_model_info])
      | Inr info \<Rightarrow>
          (''v1.0_'' @ str_int (case info of None \<Rightarrow> 0 | Some n \<Rightarrow> n), [Call_get_model_info]))"

definition create_signature_hash :: "env \<Rightarrow> prediction_data \<Rightarrow> string \<times> call list" where
  "create_signature_hash e pd =
     (let message = sign_payload pd in
      case sign_message e message of
        Inr signature \<Rightarrow> (sha256_hexdigest e signature, [Call_sign_message message])
      | Inl _ \<Rightarrow> (sha256_hexdigest e (str_prediction_data e pd), [Call_sign_message message]))"

text \<open>
  \<^verbatim>\<open>features.shape[-1] if len(features.shape) > 1 else len(features)\<close>; \<^verbatim>\<open>len\<close> of an
  array without dimensions raises.
\<close>

definition feature_count_of :: "ndarray \<Rightarrow> exn + nat" where
  "feature_count_of feats =
     (if length (shape feats) > 1 then Inr (last (shape feats))
      else case shape feats of
             [] \<Rightarrow> Inl (TypeError ''len() of unsized object'')
           | n # _ \<Rightarrow> Inr n)"

definition create_prediction_result ::
  "env \<Rightarrow> PredictionEngine \<Rightarrow> int \<Rightarrow> real \<Rightarrow> ndarray \<Rightarrow> (exn + PredictionResult) \<times> call list" where
  "create_prediction_result e s dir conf feats =
     (let ts = clock e 0;
          fh = sha256_hexdigest e (tobytes feats);
          (mv, cs1) = get_model_version e;
          pd = \<lparr>pd_direction = dir, pd_confidence = conf, pd_timestamp = ts,
                pd_features_hash = fh, pd_model_version = mv\<rparr>;
          (sh, cs2) = create_signature_hash e pd
      in case feature_count_of feats of
           Inl x \<Rightarrow> (Inl x, cs1 @ cs2)
         | Inr fc \<Rightarrow>
             (Inr \<lparr>direction = dir, confidence = conf, timestamp = ts, features_hash = fh,
                   signature_hash = sh, model_version = pd_model_version pd,
                   metadata = [(''total_predictions'', PyInt (total_predictions s)),
                               (''consecutive_losses'', PyInt (consecutive_losses s)),
                               (''accuracy'', PyFloat (calculate_accuracy s)),
                               (''feature_count'', PyInt (int fc))],
                   round_id = None\<rparr>,
              cs1 @ cs2))"

text \<open>\<^verbatim>\<open>xs[-100:]\<close>, the last hundred elements (all of them when there are fewer).\<close>

definition last100 :: "'a list \<Rightarrow> 'a list" where
  "last100 xs = drop (length xs - 100) xs"

text \<open>
  The block ``Update tracking'' of \<^verbatim>\<open>generate_prediction\<close>: count, stamp, append, and
  keep only the last hundred predictions.
\<close>

definition update_tracking :: "env \<Rightarrow> PredictionEngine \<Rightarrow> PredictionResult \<Rightarrow> PredictionEngine" where
  "update_tracking e s pr =
     (let s1 = s\<lparr>total_predictions := total_predictions s + 1\<rparr>;
          s2 = s1\<lparr>last_prediction_time := Some (clock e 1)\<rparr>;
          s3 = s2\<lparr>prediction_history := prediction_history s2 @ [pr]\<rparr>
      in if length (prediction_history s3) > 100
         then s3\<lparr>prediction_history := last100 (prediction_history s3)\<rparr>
         else s3)"

definition generate_prediction ::
  "env \<Rightarrow> PredictionEngine \<Rightarrow> PredictionResult option \<times> PredictionEngine \<times> call list" where
  "generate_prediction e s =
     (if emergency_stop s then (None, s, [])
      else case get_latest_features e of
        Inl _ \<Rightarrow> (None, s, [Call_get_latest_features])
      | Inr None \<Rightarrow> (None, s, [Call_get_latest_features])
      | Inr (Some feats) \<Rightarrow>
         (case predict e feats of
            Inl _ \<Rightarrow> (None, s, [Call_get_latest_features, Call_predict feats])
          | Inr (dir, conf) \<Rightarrow>
             if float_lt (Num conf) (CONFIDENCE_THRESHOLD (config s))
             then (None, s, [Call_get_latest_features, Call_predict feats])
             else (case create_prediction_result e s dir conf feats of
                     (Inl _, cs) \<Rightarrow>
                       (None, s, [Call_get_latest_features, Call_predict feats] @ cs)
                   | (Inr pr, cs) \<Rightarrow>
                       (Some pr, update_tracking e s pr,
                        [Call_get_latest_features, Call_predict feats] @ cs))))"

definition check_emergency_conditions :: "PredictionEngine \<Rightarrow> PredictionEngine" where
  "check_emergency_conditions s =
     (if consecutive_losses s \<ge> MAX_CONSECUTIVE_LOSSES (config s)
      then s\<lparr>emergency_stop := True\<rparr>
      else let accuracy = calculate_accuracy s in
        if total_predictions s \<ge> 10
           \<and> float_lt (Num accuracy) (EMERGENCY_STOP_THRESHOLD (config s))
        then s\<lparr>emergency_stop := True\<rparr>
        else if emergency_stop s \<and> consecutive_losses s = 0
                \<and> float_ge (Num accuracy) (CONFIDENCE_THRESHOLD (config s))
        then s\<lparr>emergency_stop := False\<rparr>
        else s)"

text \<open>
  The loop of \<^verbatim>\<open>update_prediction_result\<close> takes the first prediction of the history that
  has a \<^verbatim>\<open>round_id\<close> attribute equal to the argument.
\<close>

definition update_prediction_result :: "PredictionEngine \<Rightarrow> int \<Rightarrow> int \<Rightarrow> PredictionEngine" where
  "update_prediction_result s rid actual_outcome =
     (case find (\<lambda>pred. round_id pred = Some rid) (prediction_history s) of
        None \<Rightarrow> s
      | Some prediction \<Rightarrow>
          (let was_correct = (direction prediction = actual_outcome);
               s1 = (if was_correct
                     then s\<lparr>correct_predictions := correct_predictions s + 1,
                            consecutive_losses := 0\<rparr>
                     else s\<lparr>consecutive_losses := consecutive_losses s + 1\<rparr>)
           in check_emergency_conditions s1))"

definition update_model :: "env \<Rightarrow> PredictionEngine \<Rightarrow> PredictionEngine \<times> call list" where
  "update_model e s =
     (case load_model e of
        Inr True \<Rightarrow> (s\<lparr>consecutive_losses := 0, emergency_stop := False\<rparr>, [Call_load_model])
      | Inr False \<Rightarrow> (s, [Call_load_model])
      | Inl _ \<Rightarrow> (s, [Call_load_model]))"

text \<open>\<^verbatim>\<open>metadata[key] = value\<close> on a dict that keeps insertion order.\<close>

fun dict_set :: "(string \<times> pyval) list \<Rightarrow> string \<Rightarrow> pyval \<Rightarrow> (string \<times> pyval) list" where
  "dict_set [] k v = [(k, v)]"
| "dict_set ((k', v') # m) k v = (if k' = k then (k, v) # m else (k', v') # dict_set m k v)"

text \<open>
  \<^verbatim>\<open>np.random.random(dims)\<close> raises on a negative dimension. Otherwise the generator is
  asked; when it delivers, the array has the dimensions asked for.
\<close>

definition np_random_random :: "env \<Rightarrow> int list \<Rightarrow> exn + ndarray" where
  "np_random_random e dims =
     (if \<exists>d \<in> set dims. d < 0 then Inl (ValueError ''negative dimensions are not allowed'')
      else case random_random e (map nat dims) of
             Inl x \<Rightarrow> Inl x
           | Inr buffer \<Rightarrow> Inr \<lparr>shape = map nat dims, tobytes = buffer\<rparr>)"

text \<open>
  Any exception inside \<^verbatim>\<open>manual_override\<close> makes it return \<^verbatim>\<open>None\<close>. The engine itself
  is not assigned to.
\<close>

definition manual_override ::
  "env \<Rightarrow> PredictionEngine \<Rightarrow> int \<Rightarrow> real \<Rightarrow> PredictionResult option \<times> call list" where
  "manual_override e s dir conf =
     (case np_random_random e [SEQUENCE_LENGTH (config s), FEATURE_COUNT (config s)] of
        Inl _ \<Rightarrow> (None, [])
      | Inr dummy_features \<Rightarrow>
          (case create_prediction_result e s dir conf dummy_features of
             (Inl _, cs) \<Rightarrow> (None, cs)
           | (Inr pr, cs) \<Rightarrow>
               (Some (pr\<lparr>metadata := dict_set (metadata pr) ''manual_override'' (PyBool True)\<rparr>),
                cs)))"

text \<open>The default \<^verbatim>\<open>confidence=0.9\<close> of the signature.\<close>

definition manual_override_default ::
  "env \<Rightarrow> PredictionEngine \<Rightarrow> int \<Rightarrow> PredictionResult option \<times> call list" where
  "manual_override_default e s dir = manual_override e s dir (9 / 10)"

definition reset_emergency_stop :: "PredictionEngine \<Rightarrow> PredictionEngine" where
  "reset_emergency_stop s = s\<lparr>emergency_stop := False, consecutive_losses := 0\<rparr>"

section \<open>The signer (blockchain_interface.py)\<close>

text \<open>
  \<^verbatim>\<open>BlockchainInterface.sign_message\<close> wraps the account's signing call, given here as
  \<open>account_sign\<close>, and answers a failure of it with the empty string.
\<close>

definition BlockchainInterface_sign_message ::
  "(string \<Rightarrow> exn + string) \<Rightarrow> string \<Rightarrow> exn + string" where
  "BlockchainInterface_sign_message account_sign message =
     (case account_sign message of Inr signature \<Rightarrow> Inr signature | Inl _ \<Rightarrow> Inr [])"

section \<open>Sequences of operations\<close>

text \<open>
  The public operations of the engine, each with the environment it runs in, and the
  engine after a sequence of them. \<^verbatim>\<open>manual_override\<close> assigns to no attribute of
  \<^verbatim>\<open>self\<close>.
\<close>

datatype op =
    GeneratePrediction env
  | UpdatePredictionResult int int
  | ManualOverride env int real
  | ResetEmergencyStop
  | UpdateModel env

fun step :: "PredictionEngine \<Rightarrow> op \<Rightarrow> PredictionEngine" where
  "step s (GeneratePrediction e) = fst (snd (generate_prediction e s))"
| "step s (UpdatePredictionResult rid actual_outcome) = update_prediction_result s rid actual_outcome"
| "step s (ManualOverride e dir conf) = s"
| "step s ResetEmergencyStop = reset_emergency_stop s"
| "step s (UpdateModel e) = fst (update_model e s)"

definition run :: "PredictionEngine \<Rightarrow> op list \<Rightarrow> PredictionEngine" where
  "run s ops = foldl step s ops"

text \<open>
  \<^verbatim>\<open>generate_prediction\<close> returns the very object it appended to the history. The host
  that creates a round for it can set \<^verbatim>\<open>round_id\<close> on that object, which is the attribute
  \<^verbatim>\<open>update_prediction_result\<close> looks for: here on the \<open>i\<close>-th stored prediction.
\<close>

definition assign_round_id :: "PredictionEngine \<Rightarrow> nat \<Rightarrow> int \<Rightarrow> PredictionEngine" where
  "assign_round_id s i rid =
     (if i < length (prediction_history s)
      then s\<lparr>prediction_history :=
               (prediction_history s)[i := (prediction_history s ! i)\<lparr>round_id := Some rid\<rparr>]\<rparr>
      else s)"

text \<open>A sequence of outcome updates, each a pair of a round identifier and the outcome.\<close>

definition apply_updates :: "PredictionEngine \<Rightarrow> (int \<times> int) list \<Rightarrow> PredictionEngine" where
  "apply_updates s us = foldl (\<lambda>t u. update_prediction_result t (fst u) (snd u)) s us"

text \<open>
  An update is matched when the history holds a prediction for its round, and it is
  incorrect when that prediction's direction differs from the outcome.
\<close>

definition matched :: "PredictionEngine \<Rightarrow> int \<times> int \<Rightarrow> bool" where
  "matched s u = (find (\<lambda>pred. round_id pred = Some (fst u)) (prediction_history s) \<noteq> None)"

definition incorrect :: "PredictionEngine \<Rightarrow> int \<times> int \<Rightarrow> bool" where
  "incorrect s u =
     (case find (\<lambda>pred. round_id pred = Some (fst u)) (prediction_history s) of
        None \<Rightarrow> False
      | Some prediction \<Rightarrow> direction prediction \<noteq> snd u)"

text \<open>The two conditions under which \<^verbatim>\<open>_check_emergency_conditions\<close> sets the flag.\<close>

definition trip :: "PredictionEngine \<Rightarrow> bool" where
  "trip s = (consecutive_losses s \<ge> MAX_CONSECUTIVE_LOSSES (config s)
     \<or> (total_predictions s \<ge> 10
         \<and> float_lt (Num (calculate_accuracy s)) (EMERGENCY_STOP_THRESHOLD (config s))))"

text \<open>
  The value of the local \<^verbatim>\<open>prediction_data\<close> inside \<^verbatim>\<open>_create_prediction_result\<close>, for
  stating what is signed and hashed.
\<close>

definition prediction_data_for :: "env \<Rightarrow> int \<Rightarrow> real \<Rightarrow> ndarray \<Rightarrow> prediction_data" where
  "prediction_data_for e dir conf feats =
     \<lparr>pd_direction = dir, pd_confidence = conf, pd_timestamp = clock e 0,
      pd_features_hash = sha256_hexdigest e (tobytes feats),
      pd_model_version = fst (get_model_version e)\<rparr>"

text \<open>
  No outcome has been counted as correct, and no stored prediction carries a
  \<^verbatim>\<open>round_id\<close>: the invariant behind the bound on \<open>correct_predictions\<close>.
\<close>

definition untagged :: "PredictionEngine \<Rightarrow> bool" where
  "untagged s = (correct_predictions s = 0 \<and> 0 \<le> total_predictions s
     \<and> list_all (\<lambda>p. round_id p = None) (prediction_history s))"

section \<open>Test doubles\<close>

text \<open>The defaults of \<^verbatim>\<open>config.py\<close>, with a private key.\<close>

definition demo_config :: Config where
  "demo_config = \<lparr>PRIVATE_KEY = ''0xkey'', WEB3_PROVIDER_URL = ''https://rpc-amoy.polygon.technology/'',
     SEQUENCE_LENGTH = 60, FEATURE_COUNT = 20, BATCH_SIZE = 32, CONFIDENCE_THRESHOLD = Num (6 / 10),
     MAX_CONSECUTIVE_LOSSES = 3, EMERGENCY_STOP_THRESHOLD = Num (3 / 10)\<rparr>"

definition demo_features :: ndarray where
  "demo_features = \<lparr>shape = [60, 20], tobytes = ''window''\<rparr>"

text \<open>
  Collaborators that all succeed; the classifier answers DOWN with the given
  confidence. The digest double wraps its argument, so it is injective.
\<close>

definition demo_env :: "real \<Rightarrow> env" where
  "demo_env conf = \<lparr>get_latest_features = Inr (Some demo_features),
     predict = (\<lambda>_. Inr (1, conf)),
     sign_message = (\<lambda>m. Inr (''0xsig:'' @ m)),
     get_model_info = Inr (Some 7),
     load_model = Inr True,
     clock = (\<lambda>k. if k = 0 then ''2024-01-01T00:00:00'' else ''2024-01-01T00:00:01''),
     random_random = (\<lambda>_. Inr ''random''),
     sha256_hexdigest = (\<lambda>b. ''sha256('' @ b @ '')''),
     float_repr = (\<lambda>_. ''0.9''),
     str_repr = quote\<rparr>"

text \<open>The same, with a signer that raises.\<close>

definition failing_sign_env :: env where
  "failing_sign_env = (demo_env (9 / 10))\<lparr>sign_message := (\<lambda>_. Inl (Raised ''SignFailed''))\<rparr>"

text \<open>A prediction of UP that a host has tagged with round 7, and an engine that holds it.\<close>

definition tagged_prediction :: PredictionResult where
  "tagged_prediction = \<lparr>direction = 0, confidence = 9 / 10, timestamp = ''2024-01-01T00:00:00'',
     features_hash = ''fh'', signature_hash = ''sh'', model_version = ''v1.0_7'',
     metadata = [], round_id = Some 7\<rparr>"

definition tagged_engine :: PredictionEngine where
  "tagged_engine = (init demo_config)\<lparr>total_predictions := 1,
     prediction_history := [tagged_prediction]\<rparr>"

text \<open>An engine whose history is full: a hundred predictions, told apart by their round.\<close>

definition full_engine :: PredictionEngine where
  "full_engine = (init demo_config)\<lparr>total_predictions := 100,
     prediction_history := map (\<lambda>k. tagged_prediction\<lparr>round_id := Some (int k)\<rparr>) [0..<100]\<rparr>"

text \<open>A configuration that \<^verbatim>\<open>validate_config\<close> accepts, with a negative feature count.\<close>

definition negative_config :: Config where
  "negative_config = demo_config\<lparr>FEATURE_COUNT := - 3\<rparr>"

text \<open>Risk options out of their ranges, and a threshold that is NaN.\<close>

definition lax_config :: Config where
  "lax_config = demo_config\<lparr>MAX_CONSECUTIVE_LOSSES := 0, EMERGENCY_STOP_THRESHOLD := Num 2\<rparr>"

definition nan_config :: Config where
  "nan_config = demo_config\<lparr>CONFIDENCE_THRESHOLD := NaN\<rparr>"

definition halted_engine :: PredictionEngine where
  "halted_engine = (init demo_config)\<lparr>emergency_stop := True, consecutive_losses := 3\<rparr>"

section \<open>Basic facts\<close>

lemma str_nat_digit: "n < 10 \<Longrightarrow> str_nat n = [digit_char n]"
  by (simp add: str_nat.simps)

lemma check_keeps:
  "config (check_emergency_conditions s) = config s"
  "consecutive_losses (check_emergency_conditions s) = consecutive_losses s"
  "total_predictions (check_emergency_conditions s) = total_predictions s"
  "correct_predictions (check_emergency_conditions s) = correct_predictions s"
  "prediction_history (check_emergency_conditions s) = prediction_history s"
  "last_prediction_time (check_emergency_conditions s) = last_prediction_time s"
  by (simp_all add: check_emergency_conditions_def Let_def)

lemma calculate_accuracy_cong:
  "total_predictions t = total_predictions s \<Longrightarrow> correct_predictions t = correct_predictions s
   \<Longrightarrow> calculate_accuracy t = calculate_accuracy s"
  by (simp add: calculate_accuracy_def)

lemma calculate_accuracy_check:
  "calculate_accuracy (check_emergency_conditions s) = calculate_accuracy s"
  by (rule calculate_accuracy_cong) (simp_all add: check_keeps)

lemma trip_check: "trip (check_emergency_conditions s) = trip s"
  by (simp add: trip_def check_keeps calculate_accuracy_check)

text \<open>The flag after \<^verbatim>\<open>_check_emergency_conditions\<close>, in one equation.\<close>

lemma check_flag:
  "emergency_stop (check_emergency_conditions s) =
     (trip s \<or> (emergency_stop s
        \<and> \<not> (consecutive_losses s = 0
              \<and> float_ge (Num (calculate_accuracy s)) (CONFIDENCE_THRESHOLD (config s)))))"
  by (auto simp add: check_emergency_conditions_def trip_def Let_def)

lemma update_matched:
  assumes "find (\<lambda>pred. round_id pred = Some rid) (prediction_history s) = Some p"
  shows "update_prediction_result s rid a =
     check_emergency_conditions
       (if direction p = a
        then s\<lparr>correct_predictions := correct_predictions s + 1, consecutive_losses := 0\<rparr>
        else s\<lparr>consecutive_losses := consecutive_losses s + 1\<rparr>)"
  using assms by (simp add: update_prediction_result_def Let_def)

lemma update_unmatched:
  "\<not> matched s (rid, a) \<Longrightarrow> update_prediction_result s rid a = s"
  by (simp add: matched_def update_prediction_result_def)

lemma update_keeps:
  "config (update_prediction_result s rid a) = config s"
  "total_predictions (update_prediction_result s rid a) = total_predictions s"
  "prediction_history (update_prediction_result s rid a) = prediction_history s"
  "last_prediction_time (update_prediction_result s rid a) = last_prediction_time s"
  by (simp_all add: update_prediction_result_def Let_def check_keeps split: option.splits)

lemma update_losses:
  "consecutive_losses (update_prediction_result s rid a) =
     (if matched s (rid, a) then (if incorrect s (rid, a) then consecutive_losses s + 1 else 0)
      else consecutive_losses s)"
  by (simp add: update_prediction_result_def Let_def check_keeps matched_def incorrect_def
      split: option.splits)

lemma apply_updates_snoc:
  "apply_updates s (us @ [u]) = update_prediction_result (apply_updates s us) (fst u) (snd u)"
  by (simp add: apply_updates_def)

lemma apply_updates_history:
  "prediction_history (apply_updates s us) = prediction_history s"
proof (induction us rule: rev_induct)
  case Nil
  show ?case by (simp add: apply_updates_def)
next
  case (snoc u us)
  then show ?case by (simp add: apply_updates_snoc update_keeps)
qed

lemma matched_apply: "matched (apply_updates s us) u = matched s u"
  by (simp add: matched_def apply_updates_history)

lemma incorrect_apply: "incorrect (apply_updates s us) u = incorrect s u"
  by (simp add: incorrect_def apply_updates_history)

lemma get_model_version_calls: "snd (get_model_version e) = [Call_get_model_info]"
  by (simp add: get_model_version_def split: sum.splits)

lemma create_signature_hash_calls:
  "snd (create_signature_hash e pd) = [Call_sign_message (sign_payload pd)]"
  by (simp add: create_signature_hash_def Let_def split: sum.splits)

text \<open>\<^verbatim>\<open>_create_prediction_result\<close> with its local bindings substituted.\<close>

lemma create_prediction_result_eq:
  "create_prediction_result e s dir conf feats =
     (case feature_count_of feats of
        Inl x \<Rightarrow> Inl x
      | Inr fc \<Rightarrow>
          Inr \<lparr>direction = dir, confidence = conf, timestamp = clock e 0,
               features_hash = sha256_hexdigest e (tobytes feats),
               signature_hash = fst (create_signature_hash e (prediction_data_for e dir conf feats)),
               model_version = fst (get_model_version e),
               metadata = [(''total_predictions'', PyInt (total_predictions s)),
                           (''consecutive_losses'', PyInt (consecutive_losses s)),
                           (''accuracy'', PyFloat (calculate_accuracy s)),
                           (''feature_count'', PyInt (int fc))],
               round_id = None\<rparr>,
      [Call_get_model_info, Call_sign_message (sign_payload (prediction_data_for e dir conf feats))])"
proof -
  obtain mv cs1 where mv: "get_model_version e = (mv, cs1)"
    by (cases "get_model_version e")
  with get_model_version_calls [of e] have cs1: "cs1 = [Call_get_model_info]"
    by simp
  let ?pd = "prediction_data_for e dir conf feats"
  have pd: "?pd = \<lparr>pd_direction = dir, pd_confidence = conf, pd_timestamp = clock e 0,
      pd_features_hash = sha256_hexdigest e (tobytes feats), pd_model_version = mv\<rparr>"
    by (simp add: prediction_data_for_def mv)
  obtain sh cs2 where sh: "create_signature_hash e ?pd = (sh, cs2)"
    by (cases "create_signature_hash e ?pd")
  with create_signature_hash_calls [of e ?pd] have cs2: "cs2 = [Call_sign_message (sign_payload ?pd)]"
    by simp
  have pmv: "pd_model_version ?pd = mv"
    by (simp add: prediction_data_for_def mv)
  show ?thesis
    using sh
    by (simp add: create_prediction_result_def Let_def mv cs1 cs2 pd [symmetric] pmv
        split: sum.splits)
qed

lemma create_untagged:
  "create_prediction_result e s dir conf feats = (Inr pr, cs) \<Longrightarrow> round_id pr = None"
  by (auto simp add: create_prediction_result_eq split: sum.splits)

lemma length_last100: "length (last100 xs) \<le> 100"
  by (simp add: last100_def)

lemma set_last100: "set (last100 xs) \<subseteq> set xs"
  by (simp add: last100_def set_drop_subset)

lemma update_tracking_history:
  "prediction_history (update_tracking e s pr) =
     (if length (prediction_history s) + 1 > 100 then last100 (prediction_history s @ [pr])
      else prediction_history s @ [pr])"
  by (simp add: update_tracking_def Let_def)

lemma update_tracking_length:
  "length (prediction_history (update_tracking e s pr)) \<le> 100"
  by (simp add: update_tracking_history length_last100)

lemma update_tracking_full:
  "length (prediction_history s) = 100 \<Longrightarrow>
   prediction_history (update_tracking e s pr) = tl (prediction_history s) @ [pr]"
  by (cases "prediction_history s") (simp_all add: update_tracking_history last100_def)

lemma update_tracking_room:
  "length (prediction_history s) < 100 \<Longrightarrow>
   prediction_history (update_tracking e s pr) = prediction_history s @ [pr]"
  by (simp add: update_tracking_history)

text \<open>
  A call of \<^verbatim>\<open>generate_prediction\<close> either returns \<^verbatim>\<open>None\<close> and leaves the engine as it
  was, or returns a prediction without \<^verbatim>\<open>round_id\<close> and records it.
\<close>

lemma generate_cases:
  "(\<exists>cs. generate_prediction e s = (None, s, cs))
   \<or> (\<exists>pr cs. generate_prediction e s = (Some pr, update_tracking e s pr, cs)
         \<and> round_id pr = None)"
proof (cases "emergency_stop s")
  case True
  then show ?thesis by (simp add: generate_prediction_def)
next
  case active: False
  show ?thesis
  proof (cases "get_latest_features e")
    case (Inl x)
    with active show ?thesis by (simp add: generate_prediction_def)
  next
    case fetched: (Inr fo)
    show ?thesis
    proof (cases fo)
      case None
      with active fetched show ?thesis by (simp add: generate_prediction_def)
    next
      case window: (Some feats)
      show ?thesis
      proof (cases "predict e feats")
        case (Inl x)
        with active fetched window show ?thesis by (simp add: generate_prediction_def)
      next
        case predicted: (Inr dc)
        obtain dir conf where dc: "dc = (dir, conf)" by (cases dc)
        show ?thesis
        proof (cases "float_lt (Num conf) (CONFIDENCE_THRESHOLD (config s))")
          case True
          with active fetched window predicted dc show ?thesis
            by (simp add: generate_prediction_def)
        next
          case confident: False
          obtain r cs where c: "create_prediction_result e s dir conf feats = (r, cs)"
            by (cases "create_prediction_result e s dir conf feats")
          show ?thesis
          proof (cases r)
            case (Inl x)
            with active fetched window predicted dc confident c show ?thesis
              by (simp add: generate_prediction_def)
          next
            case built: (Inr p)
            from c built have "round_id p = None" by (simp add: create_untagged)
            with active fetched window predicted dc confident c built show ?thesis
              by (simp add: generate_prediction_def)
          qed
        qed
      qed
    qed
  qed
qed

text \<open>When every step succeeds and the confidence reaches the threshold, a prediction comes out.\<close>

lemma generate_emits:
  assumes "\<not> emergency_stop s"
    and "get_latest_features e = Inr (Some feats)"
    and "predict e feats = Inr (dir, conf)"
    and "\<not> float_lt (Num conf) (CONFIDENCE_THRESHOLD (config s))"
    and "feature_count_of feats = Inr fc"
  shows "fst (generate_prediction e s) \<noteq> None"
  using assms by (simp add: generate_prediction_def create_prediction_result_eq)

lemma step_history_bound:
  assumes "length (prediction_history s) \<le> 100"
  shows "length (prediction_history (step s x)) \<le> 100"
proof (cases x)
  case (GeneratePrediction e)
  from generate_cases [of e s] assms show ?thesis
    by (auto simp add: GeneratePrediction update_tracking_length)
next
  case (UpdatePredictionResult rid a)
  with assms show ?thesis by (simp add: update_keeps)
next
  case (ManualOverride e d c)
  with assms show ?thesis by simp
next
  case ResetEmergencyStop
  with assms show ?thesis by (simp add: reset_emergency_stop_def)
next
  case (UpdateModel e)
  with assms show ?thesis by (simp add: update_model_def split: sum.splits bool.splits)
qed

lemma run_history_bound:
  "length (prediction_history s) \<le> 100 \<Longrightarrow> length (prediction_history (run s ops)) \<le> 100"
  by (induction ops rule: rev_induct) (simp_all add: run_def step_history_bound)

lemma find_untagged:
  "list_all (\<lambda>p. round_id p = None) ps \<Longrightarrow> find (\<lambda>pred. round_id pred = Some rid) ps = None"
  by (induction ps) simp_all

lemma update_untagged: "untagged s \<Longrightarrow> update_prediction_result s rid a = s"
  by (simp add: untagged_def update_prediction_result_def find_untagged)

lemma update_tracking_untagged:
  assumes "untagged s" and "round_id pr = None"
  shows "untagged (update_tracking e s pr)"
proof -
  have "set (prediction_history (update_tracking e s pr)) \<subseteq> set (prediction_history s @ [pr])"
    using set_last100 [of "prediction_history s @ [pr]"] by (simp add: update_tracking_history)
  moreover have "correct_predictions (update_tracking e s pr) = correct_predictions s"
    and "total_predictions (update_tracking e s pr) = total_predictions s + 1"
    by (simp_all add: update_tracking_def Let_def)
  ultimately show ?thesis
    using assms by (auto simp add: untagged_def list_all_iff)
qed

lemma step_untagged:
  assumes "untagged s"
  shows "untagged (step s x)"
proof (cases x)
  case (GeneratePrediction e)
  from generate_cases [of e s] assms show ?thesis
    by (auto simp add: GeneratePrediction update_tracking_untagged)
next
  case (UpdatePredictionResult rid a)
  with assms show ?thesis by (simp add: update_untagged)
next
  case (ManualOverride e d c)
  with assms show ?thesis by simp
next
  case ResetEmergencyStop
  with assms show ?thesis by (simp add: reset_emergency_stop_def untagged_def)
next
  case (UpdateModel e)
  with assms show ?thesis
    by (simp add: update_model_def untagged_def split: sum.splits bool.splits)
qed

lemma run_untagged: "untagged s \<Longrightarrow> untagged (run s ops)"
  by (induction ops rule: rev_induct) (simp_all add: run_def step_untagged)

lemmas demo_defs =
  demo_config_def demo_features_def demo_env_def failing_sign_env_def tagged_prediction_def
  tagged_engine_def full_engine_def halted_engine_def negative_config_def lax_config_def
  nan_config_def init_def

section \<open>Properties\<close>

text \<open>
  C1. While \<open>emergency_stop\<close> is set, \<open>generate_prediction\<close> returns \<open>None\<close>, leaves the
  engine as it is and calls no collaborator at all: in particular neither
  \<^verbatim>\<open>data_collector.get_latest_features\<close> nor \<^verbatim>\<open>model_trainer.predict\<close>.
\<close>

theorem halted_generates_nothing:
  assumes "emergency_stop s"
  shows "generate_prediction e s = (None, s, [])"
  using assms by (simp add: generate_prediction_def)

theorem halted_generates_nothing_witness:
  "emergency_stop halted_engine
   \<and> generate_prediction (demo_env (9 / 10)) halted_engine = (None, halted_engine, [])"
proof -
  have h: "emergency_stop halted_engine"
    by (simp add: halted_engine_def)
  from halted_generates_nothing [OF h] h show ?thesis
    by simp
qed

text \<open>
  C2. After an outcome update that found its prediction, with \<open>s'\<close> the engine after the
  update and the counters read there (the re-evaluation does not change them): the flag
  is set whenever one of the two conditions of \<open>trip\<close> holds; from a cleared flag it
  becomes set exactly when one of them holds; and from a set flag, with neither
  holding, it is cleared exactly when \<open>consecutive_losses\<close> is \<open>0\<close> and the running
  accuracy is at least \<open>CONFIDENCE_THRESHOLD\<close> (the comparison \<^verbatim>\<open>>=\<close> of Python floats).
\<close>

theorem emergency_stop_after_update:
  assumes "matched s (rid, a)"
  shows "(trip (update_prediction_result s rid a)
            \<longrightarrow> emergency_stop (update_prediction_result s rid a))
     \<and> (\<not> emergency_stop s \<longrightarrow>
          (emergency_stop (update_prediction_result s rid a)
             \<longleftrightarrow> trip (update_prediction_result s rid a)))
     \<and> (emergency_stop s \<and> \<not> trip (update_prediction_result s rid a) \<longrightarrow>
          (\<not> emergency_stop (update_prediction_result s rid a) \<longleftrightarrow>
             consecutive_losses (update_prediction_result s rid a) = 0
             \<and> float_ge (Num (calculate_accuracy (update_prediction_result s rid a)))
                 (CONFIDENCE_THRESHOLD (config (update_prediction_result s rid a)))))"
proof -
  from assms obtain p
    where p: "find (\<lambda>pred. round_id pred = Some rid) (prediction_history s) = Some p"
    by (auto simp add: matched_def)
  define s1 where "s1 =
    (if direction p = a
     then s\<lparr>correct_predictions := correct_predictions s + 1, consecutive_losses := 0\<rparr>
     else s\<lparr>consecutive_losses := consecutive_losses s + 1\<rparr>)"
  have u: "update_prediction_result s rid a = check_emergency_conditions s1"
    unfolding s1_def by (rule update_matched [OF p])
  have e1: "emergency_stop s1 = emergency_stop s"
    by (simp add: s1_def)
  show ?thesis
    unfolding u
    by (simp add: check_flag trip_check check_keeps calculate_accuracy_check e1)
qed

theorem emergency_stop_after_update_witness:
  "matched (tagged_engine\<lparr>consecutive_losses := 2\<rparr>) (7, 1)
   \<and> \<not> emergency_stop (tagged_engine\<lparr>consecutive_losses := 2\<rparr>)
   \<and> trip (update_prediction_result (tagged_engine\<lparr>consecutive_losses := 2\<rparr>) 7 1)
   \<and> emergency_stop (update_prediction_result (tagged_engine\<lparr>consecutive_losses := 2\<rparr>) 7 1)"
proof -
  let ?s = "tagged_engine\<lparr>consecutive_losses := 2\<rparr>"
  have m: "matched ?s (7, 1)"
    by (simp add: matched_def demo_defs)
  have a: "\<not> emergency_stop ?s"
    by (simp add: demo_defs)
  have t: "trip (update_prediction_result ?s 7 1)"
    by (simp add: update_prediction_result_def trip_def check_keeps demo_defs)
  from emergency_stop_after_update [OF m] m a t show ?thesis
    by simp
qed

text \<open>
  C3. Start from an engine whose \<open>consecutive_losses\<close> is \<open>0\<close>, as in the initial state,
  and apply outcome updates that each find their prediction. Then \<open>consecutive_losses\<close>
  is the length of the run of incorrect outcomes at the end of the sequence. One
  matched update sets it to \<open>0\<close> when the outcome equals the predicted direction and
  adds \<open>1\<close> otherwise.
\<close>

theorem losses_trailing_run:
  assumes "consecutive_losses s = 0" and "\<forall>u \<in> set us. matched s u"
  shows "consecutive_losses (apply_updates s us) = int (length (takeWhile (incorrect s) (rev us)))
     \<and> (matched t (rid, a) \<longrightarrow>
          consecutive_losses (update_prediction_result t rid a) =
            (if incorrect t (rid, a) then consecutive_losses t + 1 else 0))"
proof
  show "consecutive_losses (apply_updates s us) = int (length (takeWhile (incorrect s) (rev us)))"
    using assms(2)
  proof (induction us rule: rev_induct)
    case Nil
    then show ?case using assms(1) by (simp add: apply_updates_def)
  next
    case (snoc u us)
    then have m: "matched s u" and rest: "\<forall>u \<in> set us. matched s u"
      by simp_all
    from snoc.IH [OF rest] m show ?case
      by (simp add: apply_updates_snoc update_losses [of _ "fst u" "snd u", simplified]
          matched_apply incorrect_apply)
  qed
next
  show "matched t (rid, a) \<longrightarrow>
          consecutive_losses (update_prediction_result t rid a) =
            (if incorrect t (rid, a) then consecutive_losses t + 1 else 0)"
    by (simp add: update_losses)
qed

theorem losses_trailing_run_witness:
  "consecutive_losses tagged_engine = 0
   \<and> list_all (matched tagged_engine) [(7, 1), (7, 0), (7, 1), (7, 1)]
   \<and> consecutive_losses (apply_updates tagged_engine [(7, 1), (7, 0), (7, 1), (7, 1)]) = 2"
proof -
  have z: "consecutive_losses tagged_engine = 0"
    by (simp add: demo_defs)
  have m: "\<forall>u \<in> set [(7, 1), (7, 0), (7, 1), (7, 1)]. matched tagged_engine u"
    by (simp add: matched_def demo_defs)
  have i: "incorrect tagged_engine (7, 1)" "\<not> incorrect tagged_engine (7, 0)"
    by (simp_all add: incorrect_def demo_defs)
  from losses_trailing_run [OF z m] z m i show ?thesis
    by simp
qed

text \<open>
  A signer that raises sends \<^verbatim>\<open>_create_signature_hash\<close> to its \<^verbatim>\<open>except\<close> branch. The
  signer of this repository does not raise: it answers a failed signing call with the
  empty string, and the engine hashes that like any signature.
\<close>

lemma silent_signer_hashes_empty:
  assumes "sign_message e = BlockchainInterface_sign_message account_sign"
    and "account_sign (sign_payload pd) = Inl x"
  shows "fst (create_signature_hash e pd) = sha256_hexdigest e []"
  using assms by (simp add: create_signature_hash_def BlockchainInterface_sign_message_def Let_def)

text \<open>
  The text hashed on the fallback path opens with a brace, the message sent for signing
  opens with a digit or a minus sign: the two are never the same string.
\<close>

lemma digit_char_not_brace: "d < 10 \<Longrightarrow> digit_char d \<noteq> CHR ''{''"
proof -
  assume "d < 10"
  then have "d \<in> {0, 1, 2, 3, 4, 5, 6, 7, 8, 9}" by auto
  then show ?thesis
    by (auto simp add: digit_char_def)
qed

lemma hd_str_nat: "hd (str_nat n) \<noteq> CHR ''{'' \<and> str_nat n \<noteq> []"
proof (induction n rule: str_nat.induct)
  case (1 n)
  show ?case
  proof (cases "n < 10")
    case True
    then show ?thesis by (simp add: str_nat_digit digit_char_not_brace)
  next
    case False
    with 1 show ?thesis by (simp add: str_nat.simps [of n])
  qed
qed

lemma fallback_text_differs: "str_prediction_data e pd \<noteq> sign_payload pd"
proof -
  have "hd (sign_payload pd) \<noteq> CHR ''{''"
    using hd_str_nat [of "nat (pd_direction pd)"] hd_str_nat [of "nat (- pd_direction pd)"]
    by (simp add: sign_payload_def str_int_def)
  moreover have "hd (str_prediction_data e pd) = CHR ''{''"
    by (simp add: str_prediction_data_def)
  ultimately show ?thesis by metis
qed

text \<open>
  C4, as amended. When \<^verbatim>\<open>sign_message\<close> raises, \<^verbatim>\<open>_create_signature_hash\<close> still returns
  a digest and raises nothing: the digest of \<^verbatim>\<open>str(prediction_data)\<close>, the text of the
  whole dict (direction, confidence, timestamp, features hash, model version), which is
  not the message that was sent for signing. The prediction is built as usual, and its
  metadata has the four entries \<^verbatim>\<open>total_predictions\<close>, \<^verbatim>\<open>consecutive_losses\<close>,
  \<^verbatim>\<open>accuracy\<close> and \<^verbatim>\<open>feature_count\<close>, none of which tells a degraded attestation.
\<close>

theorem sign_failure_fallback:
  assumes "sign_message e (sign_payload (prediction_data_for e dir conf feats)) = Inl x"
    and "feature_count_of feats = Inr fc"
  shows "create_signature_hash e (prediction_data_for e dir conf feats) =
           (sha256_hexdigest e (str_prediction_data e (prediction_data_for e dir conf feats)),
            [Call_sign_message (sign_payload (prediction_data_for e dir conf feats))])
     \<and> map_sum id signature_hash (fst (create_prediction_result e s dir conf feats)) =
           Inr (sha256_hexdigest e (str_prediction_data e (prediction_data_for e dir conf feats)))
     \<and> map_sum id metadata (fst (create_prediction_result e s dir conf feats)) =
           Inr [(''total_predictions'', PyInt (total_predictions s)),
                (''consecutive_losses'', PyInt (consecutive_losses s)),
                (''accuracy'', PyFloat (calculate_accuracy s)),
                (''feature_count'', PyInt (int fc))]
     \<and> str_prediction_data e (prediction_data_for e dir conf feats)
           \<noteq> sign_payload (prediction_data_for e dir conf feats)"
  using assms
  by (simp add: create_prediction_result_eq create_signature_hash_def Let_def
      fallback_text_differs)

theorem sign_failure_fallback_witness:
  "sign_message failing_sign_env
       (sign_payload (prediction_data_for failing_sign_env 1 (9 / 10) demo_features))
     = Inl (Raised ''SignFailed'')
   \<and> feature_count_of demo_features = Inr 20
   \<and> map_sum id signature_hash
       (fst (create_prediction_result failing_sign_env (init demo_config) 1 (9 / 10) demo_features))
     = Inr (sha256_hexdigest failing_sign_env
         (str_prediction_data failing_sign_env
           (prediction_data_for failing_sign_env 1 (9 / 10) demo_features)))"
proof -
  have f: "sign_message failing_sign_env
       (sign_payload (prediction_data_for failing_sign_env 1 (9 / 10) demo_features))
     = Inl (Raised ''SignFailed'')"
    by (simp add: failing_sign_env_def demo_env_def)
  have c: "feature_count_of demo_features = Inr 20"
    by (simp add: feature_count_of_def demo_features_def)
  from sign_failure_fallback [OF f c, of "init demo_config"] f c show ?thesis
    by simp
qed

text \<open>
  C4 as stated fails. With a signer that raises, the signature hash is not the digest
  of the signed message (the digest double is injective), and the metadata is, entry for
  entry, what it is when signing succeeds: there is no flag.
\<close>

theorem degraded_attestation_counterexample:
  "sign_message failing_sign_env
       (sign_payload (prediction_data_for failing_sign_env 1 (9 / 10) demo_features))
     = Inl (Raised ''SignFailed'')
   \<and> sign_payload (prediction_data_for failing_sign_env 1 (9 / 10) demo_features)
     = ''12024-01-01T00:00:00sha256(window)''
   \<and> map_sum id signature_hash
       (fst (create_prediction_result failing_sign_env (init demo_config) 1 (9 / 10) demo_features))
     \<noteq> Inr (sha256_hexdigest failing_sign_env ''12024-01-01T00:00:00sha256(window)'')
   \<and> map_sum id metadata
       (fst (create_prediction_result failing_sign_env (init demo_config) 1 (9 / 10) demo_features))
     = Inr [(''total_predictions'', PyInt 0), (''consecutive_losses'', PyInt 0),
            (''accuracy'', PyFloat 0), (''feature_count'', PyInt 20)]
   \<and> map_sum id metadata
       (fst (create_prediction_result failing_sign_env (init demo_config) 1 (9 / 10) demo_features))
     = map_sum id metadata
       (fst (create_prediction_result (demo_env (9 / 10)) (init demo_config) 1 (9 / 10) demo_features))"
  by (simp add: create_prediction_result_eq create_signature_hash_def prediction_data_for_def
      get_model_version_def feature_count_of_def sign_payload_def str_prediction_data_def
      str_int_def str_nat_digit digit_char_def quote_def calculate_accuracy_def Let_def
      demo_defs)

text \<open>
  What \<^verbatim>\<open>manual_override\<close> does, by the outcome of \<^verbatim>\<open>np.random.random\<close>.
\<close>

lemma np_random_random_pair:
  assumes "np_random_random e [a, b] = Inr d"
  shows "0 \<le> a" and "0 \<le> b" and "shape d = [nat a, nat b]"
  using assms by (auto simp add: np_random_random_def split: if_splits sum.splits)

lemma manual_override_raised:
  assumes "np_random_random e [SEQUENCE_LENGTH (config s), FEATURE_COUNT (config s)] = Inl x"
  shows "manual_override e s dir conf = (None, [])"
  using assms by (simp add: manual_override_def)

lemma manual_override_built:
  assumes "np_random_random e [SEQUENCE_LENGTH (config s), FEATURE_COUNT (config s)] = Inr dummy"
  shows "manual_override e s dir conf =
      (Some \<lparr>direction = dir, confidence = conf, timestamp = clock e 0,
             features_hash = sha256_hexdigest e (tobytes dummy),
             signature_hash = fst (create_signature_hash e (prediction_data_for e dir conf dummy)),
             model_version = fst (get_model_version e),
             metadata = [(''total_predictions'', PyInt (total_predictions s)),
                         (''consecutive_losses'', PyInt (consecutive_losses s)),
                         (''accuracy'', PyFloat (calculate_accuracy s)),
                         (''feature_count'', PyInt (FEATURE_COUNT (config s))),
                         (''manual_override'', PyBool True)],
             round_id = None\<rparr>,
       [Call_get_model_info,
        Call_sign_message (sign_payload (prediction_data_for e dir conf dummy))])"
proof -
  from np_random_random_pair [OF assms]
  have fc: "0 \<le> FEATURE_COUNT (config s)"
    and sh: "shape dummy = [nat (SEQUENCE_LENGTH (config s)), nat (FEATURE_COUNT (config s))]"
    by simp_all
  from sh have "feature_count_of dummy = Inr (nat (FEATURE_COUNT (config s)))"
    by (simp add: feature_count_of_def)
  with assms fc show ?thesis
    by (simp add: manual_override_def create_prediction_result_eq)
qed

lemma manual_override_calls:
  "snd (manual_override e s dir conf) = []
   \<or> (\<exists>m. snd (manual_override e s dir conf) = [Call_get_model_info, Call_sign_message m])"
proof (cases "np_random_random e [SEQUENCE_LENGTH (config s), FEATURE_COUNT (config s)]")
  case (Inl x)
  then show ?thesis by (simp add: manual_override_raised)
next
  case (Inr dummy)
  then show ?thesis by (simp add: manual_override_built)
qed

text \<open>
  C5, as amended. \<^verbatim>\<open>manual_override\<close> is not gated by the risk state: its result is the
  same whatever \<open>emergency_stop\<close> and \<open>CONFIDENCE_THRESHOLD\<close> are, and it calls neither
  \<^verbatim>\<open>get_latest_features\<close> nor \<^verbatim>\<open>predict\<close> (its calls are \<^verbatim>\<open>get_model_info\<close>, for the
  version tag, and \<^verbatim>\<open>sign_message\<close>). Whenever \<^verbatim>\<open>np.random.random\<close> delivers the
  placeholder window, it returns a prediction with the direction and confidence given,
  the digest of the window, the signature hash that \<^verbatim>\<open>_create_signature_hash\<close> computes
  and \<^verbatim>\<open>manual_override = True\<close> in the metadata. When \<^verbatim>\<open>np.random.random\<close> raises, it
  returns \<^verbatim>\<open>None\<close>.
\<close>

theorem manual_override_ungated:
  "(np_random_random e [SEQUENCE_LENGTH (config s), FEATURE_COUNT (config s)] = Inr dummy \<longrightarrow>
      manual_override e s dir conf =
        (Some \<lparr>direction = dir, confidence = conf, timestamp = clock e 0,
               features_hash = sha256_hexdigest e (tobytes dummy),
               signature_hash =
                 fst (create_signature_hash e (prediction_data_for e dir conf dummy)),
               model_version = fst (get_model_version e),
               metadata = [(''total_predictions'', PyInt (total_predictions s)),
                           (''consecutive_losses'', PyInt (consecutive_losses s)),
                           (''accuracy'', PyFloat (calculate_accuracy s)),
                           (''feature_count'', PyInt (FEATURE_COUNT (config s))),
                           (''manual_override'', PyBool True)],
               round_id = None\<rparr>,
         [Call_get_model_info,
          Call_sign_message (sign_payload (prediction_data_for e dir conf dummy))]))
   \<and> (np_random_random e [SEQUENCE_LENGTH (config s), FEATURE_COUNT (config s)] = Inl x \<longrightarrow>
        manual_override e s dir conf = (None, []))
   \<and> manual_override e (s\<lparr>emergency_stop := b\<rparr>) dir conf = manual_override e s dir conf
   \<and> manual_override e (s\<lparr>config := (config s)\<lparr>CONFIDENCE_THRESHOLD := t\<rparr>\<rparr>) dir conf
       = manual_override e s dir conf
   \<and> Call_get_latest_features \<notin> set (snd (manual_override e s dir conf))
   \<and> Call_predict feats \<notin> set (snd (manual_override e s dir conf))"
proof (intro conjI impI)
  assume "np_random_random e [SEQUENCE_LENGTH (config s), FEATURE_COUNT (config s)] = Inr dummy"
  then show "manual_override e s dir conf =
        (Some \<lparr>direction = dir, confidence = conf, timestamp = clock e 0,
               features_hash = sha256_hexdigest e (tobytes dummy),
               signature_hash =
                 fst (create_signature_hash e (prediction_data_for e dir conf dummy)),
               model_version = fst (get_model_version e),
               metadata = [(''total_predictions'', PyInt (total_predictions s)),
                           (''consecutive_losses'', PyInt (consecutive_losses s)),
                           (''accuracy'', PyFloat (calculate_accuracy s)),
                           (''feature_count'', PyInt (FEATURE_COUNT (config s))),
                           (''manual_override'', PyBool True)],
               round_id = None\<rparr>,
         [Call_get_model_info,
          Call_sign_message (sign_payload (prediction_data_for e dir conf dummy))])"
    by (rule manual_override_built)
next
  assume "np_random_random e [SEQUENCE_LENGTH (config s), FEATURE_COUNT (config s)] = Inl x"
  then show "manual_override e s dir conf = (None, [])"
    by (rule manual_override_raised)
next
  have acc: "calculate_accuracy (s\<lparr>emergency_stop := b\<rparr>) = calculate_accuracy s"
    "calculate_accuracy (s\<lparr>config := (config s)\<lparr>CONFIDENCE_THRESHOLD := t\<rparr>\<rparr>) = calculate_accuracy s"
    by (simp_all add: calculate_accuracy_def)
  show "manual_override e (s\<lparr>emergency_stop := b\<rparr>) dir conf = manual_override e s dir conf"
    by (simp add: manual_override_def create_prediction_result_eq acc
        split: sum.splits prod.splits)
  show "manual_override e (s\<lparr>config := (config s)\<lparr>CONFIDENCE_THRESHOLD := t\<rparr>\<rparr>) dir conf
         = manual_override e s dir conf"
    by (simp add: manual_override_def create_prediction_result_eq acc
        split: sum.splits prod.splits)
  from manual_override_calls [of e s dir conf]
  show "Call_get_latest_features \<notin> set (snd (manual_override e s dir conf))"
    by auto
  from manual_override_calls [of e s dir conf]
  show "Call_predict feats \<notin> set (snd (manual_override e s dir conf))"
    by auto
qed

theorem manual_override_ungated_witness:
  "np_random_random (demo_env (1 / 10))
       [SEQUENCE_LENGTH (config halted_engine), FEATURE_COUNT (config halted_engine)]
     = Inr \<lparr>shape = [60, 20], tobytes = ''random''\<rparr>
   \<and> emergency_stop halted_engine
   \<and> map_option direction (fst (manual_override_default (demo_env (1 / 10)) halted_engine 0)) = Some 0
   \<and> map_option confidence (fst (manual_override_default (demo_env (1 / 10)) halted_engine 0))
       = Some (9 / 10)
   \<and> map_option signature_hash (fst (manual_override_default (demo_env (1 / 10)) halted_engine 0))
       = Some ''sha256(0xsig:02024-01-01T00:00:00sha256(random))''
   \<and> map_option (\<lambda>pr. map_of (metadata pr) ''manual_override'')
         (fst (manual_override_default (demo_env (1 / 10)) halted_engine 0))
       = Some (Some (PyBool True))"
proof -
  have d: "np_random_random (demo_env (1 / 10))
       [SEQUENCE_LENGTH (config halted_engine), FEATURE_COUNT (config halted_engine)]
     = Inr \<lparr>shape = [60, 20], tobytes = ''random''\<rparr>"
    by (simp add: np_random_random_def demo_defs)
  have h: "emergency_stop halted_engine"
    by (simp add: demo_defs)
  have sg: "fst (create_signature_hash (demo_env (1 / 10))
        (prediction_data_for (demo_env (1 / 10)) 0 (9 / 10) \<lparr>shape = [60, 20], tobytes = ''random''\<rparr>))
      = ''sha256(0xsig:02024-01-01T00:00:00sha256(random))''"
    by (simp add: create_signature_hash_def prediction_data_for_def sign_payload_def
        str_int_def str_nat_digit digit_char_def Let_def demo_defs)
  from manual_override_ungated [of "demo_env (1 / 10)" halted_engine
      "\<lparr>shape = [60, 20], tobytes = ''random''\<rparr>" 0 "9 / 10"] d h sg
  show ?thesis
    by (simp add: manual_override_default_def)
qed

text \<open>
  C5 as stated fails: with \<^verbatim>\<open>FEATURE_COUNT = -3\<close>, which \<^verbatim>\<open>validate_config\<close> accepts, the
  placeholder window cannot be made and \<^verbatim>\<open>manual_override\<close> returns \<^verbatim>\<open>None\<close>, halted or
  not.
\<close>

theorem negative_feature_count_counterexample:
  "validate_config negative_config = Inr ()
   \<and> manual_override (demo_env (9 / 10)) (init negative_config) 0 (9 / 10) = (None, [])
   \<and> manual_override (demo_env (9 / 10)) ((init negative_config)\<lparr>emergency_stop := True\<rparr>) 0 (9 / 10)
       = (None, [])"
  by (simp add: validate_config_def manual_override_def np_random_random_def demo_defs)

text \<open>
  C6. When the classifier answers with a confidence below \<open>CONFIDENCE_THRESHOLD\<close>,
  \<^verbatim>\<open>generate_prediction\<close> returns \<^verbatim>\<open>None\<close> and the engine it leaves is the engine it
  found, so the history, the three counters, the flag and \<open>last_prediction_time\<close> keep
  their values; the calls made are the feature fetch and the classifier call (none at
  all when the engine is halted), and \<^verbatim>\<open>sign_message\<close> is not among them.
\<close>

theorem below_threshold_dropped:
  assumes "get_latest_features e = Inr (Some feats)"
    and "predict e feats = Inr (dir, conf)"
    and "float_lt (Num conf) (CONFIDENCE_THRESHOLD (config s))"
  shows "generate_prediction e s =
     (None, s, if emergency_stop s then [] else [Call_get_latest_features, Call_predict feats])"
  using assms by (simp add: generate_prediction_def)

theorem below_threshold_dropped_witness:
  "get_latest_features (demo_env (55 / 100)) = Inr (Some demo_features)
   \<and> predict (demo_env (55 / 100)) demo_features = Inr (1, 55 / 100)
   \<and> float_lt (Num (55 / 100)) (CONFIDENCE_THRESHOLD (config (init demo_config)))
   \<and> generate_prediction (demo_env (55 / 100)) (init demo_config) =
       (None, init demo_config, [Call_get_latest_features, Call_predict demo_features])"
proof -
  have f: "get_latest_features (demo_env (55 / 100)) = Inr (Some demo_features)"
    by (simp add: demo_env_def)
  have p: "predict (demo_env (55 / 100)) demo_features = Inr (1, 55 / 100)"
    by (simp add: demo_env_def)
  have c: "float_lt (Num (55 / 100)) (CONFIDENCE_THRESHOLD (config (init demo_config)))"
    by (simp add: demo_defs)
  have a: "\<not> emergency_stop (init demo_config)"
    by (simp add: init_def)
  from below_threshold_dropped [OF f p c] f p c a show ?thesis
    by simp
qed

text \<open>
  C7. From the initial engine, whatever operations run, the history never holds more
  than a hundred predictions. A call of \<^verbatim>\<open>generate_prediction\<close> that returns a prediction
  leaves at most a hundred; on a history of exactly a hundred it drops the oldest entry,
  keeps the others in their order and puts the new one last; below a hundred it only
  appends.
\<close>

theorem history_bounded_fifo:
  "length (prediction_history (run (init c) ops)) \<le> 100
   \<and> (generate_prediction e s = (Some pr, s', cs) \<longrightarrow>
        length (prediction_history s') \<le> 100
      \<and> (length (prediction_history s) = 100 \<longrightarrow>
           prediction_history s' = tl (prediction_history s) @ [pr])
      \<and> (length (prediction_history s) < 100 \<longrightarrow>
           prediction_history s' = prediction_history s @ [pr]))"
proof (intro conjI impI)
  show "length (prediction_history (run (init c) ops)) \<le> 100"
    by (rule run_history_bound) (simp add: init_def)
next
  assume g: "generate_prediction e s = (Some pr, s', cs)"
  with generate_cases [of e s] have s': "s' = update_tracking e s pr"
    by auto
  show "length (prediction_history s') \<le> 100"
    by (simp add: s' update_tracking_length)
  { assume "length (prediction_history s) = 100"
    then show "prediction_history s' = tl (prediction_history s) @ [pr]"
      by (simp add: s' update_tracking_full) }
  { assume "length (prediction_history s) < 100"
    then show "prediction_history s' = prediction_history s @ [pr]"
      by (simp add: s' update_tracking_room) }
qed

theorem history_bounded_fifo_witness:
  "length (prediction_history full_engine) = 100
   \<and> fst (generate_prediction (demo_env (9 / 10)) full_engine) \<noteq> None
   \<and> prediction_history (fst (snd (generate_prediction (demo_env (9 / 10)) full_engine)))
       = tl (prediction_history full_engine)
         @ [the (fst (generate_prediction (demo_env (9 / 10)) full_engine))]"
proof -
  have l: "length (prediction_history full_engine) = 100"
    by (simp add: full_engine_def)
  have ne: "fst (generate_prediction (demo_env (9 / 10)) full_engine) \<noteq> None"
    by (rule generate_emits [where feats = demo_features and dir = 1 and conf = "9 / 10" and fc = 20])
      (simp_all add: demo_defs feature_count_of_def)
  then have g: "generate_prediction (demo_env (9 / 10)) full_engine =
      (Some (the (fst (generate_prediction (demo_env (9 / 10)) full_engine))),
       fst (snd (generate_prediction (demo_env (9 / 10)) full_engine)),
       snd (snd (generate_prediction (demo_env (9 / 10)) full_engine)))"
    by (cases "generate_prediction (demo_env (9 / 10)) full_engine") auto
  from history_bounded_fifo [of demo_config "[]" "demo_env (9 / 10)" full_engine
      "the (fst (generate_prediction (demo_env (9 / 10)) full_engine))"
      "fst (snd (generate_prediction (demo_env (9 / 10)) full_engine))"
      "snd (snd (generate_prediction (demo_env (9 / 10)) full_engine))"] g l ne
  show ?thesis
    by simp
qed

text \<open>
  As long as no stored prediction carries a \<^verbatim>\<open>round_id\<close>, an outcome update finds none
  and the bound holds with \<open>correct_predictions = 0\<close>: the operations of the engine
  alone never break it.
\<close>

lemma untagged_run_bound:
  "correct_predictions (run (init c) ops) \<le> total_predictions (run (init c) ops)"
proof -
  have "untagged (init c)"
    by (simp add: untagged_def init_def)
  then have "untagged (run (init c) ops)"
    by (rule run_untagged)
  then show ?thesis
    by (simp add: untagged_def)
qed

text \<open>
  C8 does not hold of the code. One prediction is generated from the initial engine, the
  host sets \<^verbatim>\<open>round_id = 7\<close> on it, and the outcome of round 7 is reported twice, equal
  to the predicted direction: \<^verbatim>\<open>update_prediction_result\<close> counts it twice, with nothing
  that remembers a round already settled, and \<open>correct_predictions\<close> is \<open>2\<close> against
  \<open>total_predictions = 1\<close>. The same on the engine that holds one tagged prediction.
\<close>

theorem repeated_outcome_exceeds_total:
  "total_predictions
      (apply_updates
        (assign_round_id (step (init demo_config) (GeneratePrediction (demo_env (9 / 10)))) 0 7)
        [(7, 1), (7, 1)]) = 1
   \<and> correct_predictions
      (apply_updates
        (assign_round_id (step (init demo_config) (GeneratePrediction (demo_env (9 / 10)))) 0 7)
        [(7, 1), (7, 1)]) = 2
   \<and> total_predictions (apply_updates tagged_engine [(7, 0), (7, 0)]) = 1
   \<and> correct_predictions (apply_updates tagged_engine [(7, 0), (7, 0)]) = 2"
  by (simp add: apply_updates_def assign_round_id_def update_prediction_result_def
      check_emergency_conditions_def calculate_accuracy_def generate_prediction_def
      update_tracking_def create_prediction_result_eq feature_count_of_def Let_def demo_defs)

text \<open>
  The class statement of \<^verbatim>\<open>config.py\<close> raises, at the field \<^verbatim>\<open>PRICE_DATA_SOURCES\<close>, so as
  the file stands no \<^verbatim>\<open>Config\<close> is constructed, whatever the options.
\<close>

lemma class_statement_raises:
  "dataclass Config_fields =
     Inl (ValueError (''mutable default <class '' @ quote ''list''
            @ ''> for field PRICE_DATA_SOURCES is not allowed: use default_factory''))"
  by (simp add: dataclass_def Config_fields_def)

lemma construction_raises: "isl (Config_new c)"
  by (simp add: Config_new_def class_statement_raises)




text \<open>
  C10. When \<^verbatim>\<open>load_model\<close> returns \<^verbatim>\<open>True\<close>, \<^verbatim>\<open>update_model\<close> sets \<open>consecutive_losses\<close>
  to \<open>0\<close> and clears \<open>emergency_stop\<close>, and changes nothing else: \<open>total_predictions\<close>,
  \<open>correct_predictions\<close> and the history stay. A halted engine is active again after
  it, with its streak of losses gone and no outcome counted.
\<close>

theorem model_reload_resets:
  assumes "load_model e = Inr True"
  shows "fst (update_model e s) = s\<lparr>consecutive_losses := 0, emergency_stop := False\<rparr>
     \<and> consecutive_losses (fst (update_model e s)) = 0
     \<and> \<not> emergency_stop (fst (update_model e s))
     \<and> total_predictions (fst (update_model e s)) = total_predictions s
     \<and> correct_predictions (fst (update_model e s)) = correct_predictions s
     \<and> prediction_history (fst (update_model e s)) = prediction_history s"
  using assms by (simp add: update_model_def)

theorem model_reload_resets_witness:
  "load_model (demo_env (9 / 10)) = Inr True
   \<and> emergency_stop halted_engine
   \<and> consecutive_losses halted_engine = 3
   \<and> \<not> emergency_stop (fst (update_model (demo_env (9 / 10)) halted_engine))
   \<and> consecutive_losses (fst (update_model (demo_env (9 / 10)) halted_engine)) = 0
   \<and> correct_predictions (fst (update_model (demo_env (9 / 10)) halted_engine))
       = correct_predictions halted_engine"
proof -
  have l: "load_model (demo_env (9 / 10)) = Inr True"
    by (simp add: demo_env_def)
  have h: "emergency_stop halted_engine" "consecutive_losses halted_engine = 3"
    by (simp_all add: demo_defs)
  from model_reload_resets [OF l, of halted_engine] l h show ?thesis
    by simp
qed

end
